theory Spec2Isabelle
  imports Main "HOL-Library.Word"
begin

section \<open>Renspired: the serial protocol engine of main.c\<close>

text \<open>
  The program talks to a gateway over a PL011 UART. Everything it observes of the outside
  (the timer register, the receive FIFO, the ESC key) is an oracle in the record
  \<open>world\<close>; everything it does to the outside (bytes written, bytes read, console calls)
  is appended to the world's \<open>trace\<close>. C \<open>int\<close> values are modelled by \<open>int\<close>: the
  counters of the receiver stay between 0 and the buffer capacity, so no signed arithmetic
  of the modelled code overflows. The C type \<open>unsigned\<close> of the millisecond clock is
  \<open>32 word\<close>, so that \<open>get_time_ms() - start\<close> wraps as it does in C.
\<close>

subsection \<open>Characters and C strings\<close>

abbreviation NUL :: char where "NUL \<equiv> CHR 0x00"
abbreviation EOT_CHAR :: char where "EOT_CHAR \<equiv> CHR 0x04"
abbreviation TAB :: char where "TAB \<equiv> CHR 0x09"
abbreviation LF :: char where "LF \<equiv> CHR 0x0A"
abbreviation CR :: char where "CR \<equiv> CHR 0x0D"
abbreviation QUOTE :: char where "QUOTE \<equiv> CHR 0x22"
abbreviation BACKSLASH :: char where "BACKSLASH \<equiv> CHR 0x5C"

text \<open>The string a \<open>char *\<close> denotes: the bytes before the first NUL.\<close>

definition cstr :: "string \<Rightarrow> string" where
  "cstr s = takeWhile (\<lambda>c. c \<noteq> NUL) s"

subsection \<open>The world: clock, byte channel, cancel key, console\<close>

datatype event =
    Clk "32 word"            \<comment> \<open>\<open>get_time_ms\<close> returned this value\<close>
  | Tx char                  \<comment> \<open>a byte written to the UART data register\<close>
  | Rx char                  \<comment> \<open>a byte read from the UART data register\<close>
  | Printf string            \<comment> \<open>\<open>nio_printf\<close>\<close>
  | Add_line string          \<comment> \<open>\<open>scroll_add_line\<close>\<close>
  | Add_text string string   \<comment> \<open>\<open>scroll_add_text (prefix, text)\<close>\<close>
  | Redraw                   \<comment> \<open>\<open>redraw\<close>\<close>

text \<open>
  \<open>timer w n\<close> is the value of the timer register (seconds) at its \<open>n\<close>-th read and
  \<open>reads\<close> counts the reads made so far. \<open>rxq\<close> lists the outcomes of the coming polls
  of the receive FIFO: \<open>None\<close> is a poll that finds it empty, \<open>Some c\<close> is the byte \<open>c\<close>
  waiting; past the end of the list nothing arrives any more. \<open>esc\<close> lists the outcomes
  of the coming polls of the ESC key; past its end the key is up.
  The console and the scroll buffer are collaborators outside the protocol engine: their
  calls are recorded in the trace, in order, with their arguments.
\<close>

record world =
  timer :: "nat \<Rightarrow> 32 word"
  reads :: nat
  rxq :: "char option list"
  esc :: "bool list"
  trace :: "event list"

definition get_time_ms :: "world \<Rightarrow> 32 word \<times> world" where
  "get_time_ms w =
     (let t = timer w (reads w) * 1000
      in (t, w\<lparr>reads := Suc (reads w), trace := trace w @ [Clk t]\<rparr>))"

definition uart_has_data :: "world \<Rightarrow> bool \<times> world" where
  "uart_has_data w =
     (case rxq w of
        [] \<Rightarrow> (False, w)
      | None # q \<Rightarrow> (False, w\<lparr>rxq := q\<rparr>)
      | Some c # q \<Rightarrow> (True, w))"

text \<open>
  The data register is read only after \<open>uart_has_data\<close> has answered yes; the value the
  hardware returns from an empty FIFO is not specified, the model gives NUL.
\<close>

definition uart_read_char :: "world \<Rightarrow> char \<times> world" where
  "uart_read_char w =
     (case rxq w of
        Some c # q \<Rightarrow> (c, w\<lparr>rxq := q, trace := trace w @ [Rx c]\<rparr>)
      | _ \<Rightarrow> (NUL, w))"

text \<open>The transmitter drains: the wait on the FIFO-full flag always ends.\<close>

definition uart_write_char :: "char \<Rightarrow> world \<Rightarrow> world" where
  "uart_write_char c w = w\<lparr>trace := trace w @ [Tx c]\<rparr>"

fun uart_write_str :: "string \<Rightarrow> world \<Rightarrow> world" where
  "uart_write_str [] w = w"
| "uart_write_str (c # s) w = (if c = NUL then w else uart_write_str s (uart_write_char c w))"

definition isKeyPressed_ESC :: "world \<Rightarrow> bool \<times> world" where
  "isKeyPressed_ESC w =
     (case esc w of
        [] \<Rightarrow> (False, w)
      | k # ks \<Rightarrow> (k, w\<lparr>esc := ks\<rparr>))"

definition nio_printf :: "string \<Rightarrow> world \<Rightarrow> world" where
  "nio_printf s w = w\<lparr>trace := trace w @ [Printf s]\<rparr>"

definition scroll_add_line :: "string \<Rightarrow> world \<Rightarrow> world" where
  "scroll_add_line s w = w\<lparr>trace := trace w @ [Add_line s]\<rparr>"

definition scroll_add_text :: "string \<Rightarrow> string \<Rightarrow> world \<Rightarrow> world" where
  "scroll_add_text p s w = w\<lparr>trace := trace w @ [Add_text p s]\<rparr>"

definition redraw :: "world \<Rightarrow> world" where
  "redraw w = w\<lparr>trace := trace w @ [Redraw]\<rparr>"

text \<open>Projections of a trace: the bytes sent, and the channel activity in order.\<close>

fun sent :: "event list \<Rightarrow> string" where
  "sent [] = []"
| "sent (Tx c # es) = c # sent es"
| "sent (e # es) = sent es"

fun chan :: "event list \<Rightarrow> event list" where
  "chan [] = []"
| "chan (Tx c # es) = Tx c # chan es"
| "chan (Rx c # es) = Rx c # chan es"
| "chan (e # es) = chan es"

text \<open>The data bytes of a receive trace, without the empty polls.\<close>

fun bytes :: "char option list \<Rightarrow> string" where
  "bytes [] = []"
| "bytes (None # q) = bytes q"
| "bytes (Some c # q) = c # bytes q"

subsection \<open>Loops run on fuel\<close>

text \<open>
  Every \<open>while\<close> of the source is a recursive function with one unit of fuel per
  iteration; \<open>None\<close> says that the fuel did not suffice. A call that returns \<open>None\<close> for
  every amount of fuel does not return.
\<close>

fun drain_pending :: "nat \<Rightarrow> world \<Rightarrow> world option" where
  "drain_pending 0 w = None"
| "drain_pending (Suc n) w =
     (case uart_has_data w of (d, w1) \<Rightarrow>
        if d then drain_pending n (snd (uart_read_char w1)) else Some w1)"

fun uart_drain_loop :: "nat \<Rightarrow> 32 word \<Rightarrow> 32 word \<Rightarrow> world \<Rightarrow> world option" where
  "uart_drain_loop 0 ms start w = None"
| "uart_drain_loop (Suc n) ms start w =
     (case get_time_ms w of (t, w1) \<Rightarrow>
        if t - start < ms then
          (case drain_pending n w1 of
             None \<Rightarrow> None
           | Some w2 \<Rightarrow> uart_drain_loop n ms start w2)
        else Some w1)"

definition uart_drain :: "nat \<Rightarrow> 32 word \<Rightarrow> world \<Rightarrow> world option" where
  "uart_drain n ms w = (case get_time_ms w of (start, w1) \<Rightarrow> uart_drain_loop n ms start w1)"

subsection \<open>Handshake\<close>

text \<open>
  The three line-reading loops of \<open>uart_handshake\<close>. The local \<open>buf[32]\<close> with its index
  \<open>idx\<close> is the list \<open>line\<close> of the \<open>idx\<close> bytes stored so far; \<open>buf[idx] = 0\<close> followed by
  \<open>strcmp\<close> compares \<open>cstr line\<close>. A loop ends by its \<open>break\<close> (\<open>Matched\<close>), by its
  deadline (\<open>Expired\<close>) or by \<open>return false\<close> on the ESC key (\<open>Escaped\<close>).
\<close>

datatype wait_exit = Matched | Expired | Escaped

fun await_wake :: "nat \<Rightarrow> string \<Rightarrow> 32 word \<Rightarrow> world \<Rightarrow> (wait_exit \<times> world) option" where
  "await_wake 0 line start w = None"
| "await_wake (Suc n) line start w =
     (case get_time_ms w of (t, w1) \<Rightarrow>
        if \<not> t - start < 2000 then Some (Expired, w1)
        else case uart_has_data w1 of (d, w2) \<Rightarrow>
          if \<not> d then await_wake n line start w2
          else case uart_read_char w2 of (c, w3) \<Rightarrow>
            if c = LF then
              (if cstr line = ''AWAKE'' \<or> cstr line = ''ESP_READY'' then Some (Matched, w3)
               else await_wake n [] start w3)
            else if c \<noteq> CR \<and> length line < 31 then await_wake n (line @ [c]) start w3
            else await_wake n line start w3)"

fun await_ready :: "nat \<Rightarrow> string \<Rightarrow> 32 word \<Rightarrow> world \<Rightarrow> (wait_exit \<times> world) option" where
  "await_ready 0 line start w = None"
| "await_ready (Suc n) line start w =
     (case get_time_ms w of (t, w1) \<Rightarrow>
        if \<not> t - start < 15000 then Some (Expired, w1)
        else case isKeyPressed_ESC w1 of (k, w2) \<Rightarrow>
          if k then Some (Escaped, w2)
          else case uart_has_data w2 of (d, w3) \<Rightarrow>
            if \<not> d then await_ready n line start w3
            else case uart_read_char w3 of (c, w4) \<Rightarrow>
              if c = LF then
                (if cstr line = ''ESP_READY'' then Some (Matched, w4)
                 else await_ready n [] start w4)
              else if c \<noteq> CR \<and> length line < 31 then await_ready n (line @ [c]) start w4
              else await_ready n line start w4)"

fun await_ack :: "nat \<Rightarrow> string \<Rightarrow> 32 word \<Rightarrow> world \<Rightarrow> (wait_exit \<times> world) option" where
  "await_ack 0 line start w = None"
| "await_ack (Suc n) line start w =
     (case get_time_ms w of (t, w1) \<Rightarrow>
        if \<not> t - start < 5000 then Some (Expired, w1)
        else case uart_has_data w1 of (d, w2) \<Rightarrow>
          if \<not> d then await_ack n line start w2
          else case uart_read_char w2 of (c, w3) \<Rightarrow>
            if c = LF then
              (if cstr line = ''READY'' then Some (Matched, w3)
               else await_ack n [] start w3)
            else if c \<noteq> CR \<and> length line < 31 then await_ack n (line @ [c]) start w3
            else await_ack n line start w3)"

definition uart_handshake :: "nat \<Rightarrow> world \<Rightarrow> (bool \<times> world) option" where
  "uart_handshake n w =
     (case uart_drain n 100 (nio_printf (''Connecting to ESP32...'' @ [LF]) w) of
        None \<Rightarrow> None
      | Some w1 \<Rightarrow>
          (case get_time_ms (uart_write_str [LF, LF, LF, LF, LF] w1) of (start, w2) \<Rightarrow>
            (case await_wake n [] start w2 of
               None \<Rightarrow> None
             | Some (e3, w3) \<Rightarrow>
                 (case get_time_ms (uart_write_str (''RST'' @ [LF]) w3) of (start5, w4) \<Rightarrow>
                   (case await_ready n [] start5 w4 of
                      None \<Rightarrow> None
                    | Some (Escaped, w5) \<Rightarrow> Some (False, w5)
                    | Some (e5, w5) \<Rightarrow>
                        (case uart_drain n 50 w5 of
                           None \<Rightarrow> None
                         | Some w6 \<Rightarrow>
                             (case get_time_ms (uart_write_str (''SYNC'' @ [LF]) w6) of
                                (start7, w7) \<Rightarrow>
                                  (case await_ack n [] start7 w7 of
                                     None \<Rightarrow> None
                                   | Some (Matched, w8) \<Rightarrow>
                                       Some (True, nio_printf (''Connected!'' @ [LF]) w8)
                                   | Some (e7, w8) \<Rightarrow>
                                       Some (False, nio_printf (''Connection failed.'' @ [LF]) w8)))))))))"

subsection \<open>Request escaping\<close>

text \<open>
  \<open>json_escape_to_uart\<close>: the \<open>switch\<close> on \<open>*s\<close>, then \<open>s++\<close>, until \<open>*s\<close> is NUL. The test
  \<open>*s >= 32 && *s < 127\<close> admits the same bytes whether \<open>char\<close> is signed or not.
\<close>

definition escape_char :: "char \<Rightarrow> world \<Rightarrow> world" where
  "escape_char c w =
     (if c = QUOTE then uart_write_str [BACKSLASH, QUOTE] w
      else if c = BACKSLASH then uart_write_str [BACKSLASH, BACKSLASH] w
      else if c = LF then uart_write_str [BACKSLASH, CHR ''n''] w
      else if c = CR then uart_write_str [BACKSLASH, CHR ''r''] w
      else if c = TAB then uart_write_str [BACKSLASH, CHR ''t''] w
      else if 32 \<le> (of_char c :: nat) \<and> (of_char c :: nat) < 127 then uart_write_char c w
      else w)"

fun json_escape_to_uart :: "string \<Rightarrow> world \<Rightarrow> world" where
  "json_escape_to_uart [] w = w"
| "json_escape_to_uart (c # s) w =
     (if c = NUL then w else json_escape_to_uart s (escape_char c w))"

text \<open>
  The escaping table in the words of the specification: five characters have a
  two-character escape form, the other printable ASCII characters stand for themselves,
  every other byte is dropped.
\<close>

definition printable :: "char \<Rightarrow> bool" where
  "printable c = (32 \<le> (of_char c :: nat) \<and> (of_char c :: nat) \<le> 126)"

definition escape_form :: "char \<Rightarrow> string" where
  "escape_form c =
     (case map_of
        [(QUOTE, [BACKSLASH, QUOTE]), (BACKSLASH, [BACKSLASH, BACKSLASH]),
         (LF, [BACKSLASH, CHR ''n'']), (CR, [BACKSLASH, CHR ''r'']),
         (TAB, [BACKSLASH, CHR ''t''])] c of
        Some e \<Rightarrow> e
      | None \<Rightarrow> if printable c then [c] else [])"

subsection \<open>Response header\<close>

text \<open>
  \<open>atoi\<close> of the C library: leading white space, an optional sign, decimal digits. The
  C standard leaves a value outside \<open>int\<close> undefined; newlib's \<open>atoi\<close> is \<open>strtol\<close>,
  which saturates, and so does the model.
\<close>

definition isspace :: "char \<Rightarrow> bool" where
  "isspace c = (c = CHR '' '' \<or> (9 \<le> (of_char c :: nat) \<and> (of_char c :: nat) \<le> 13))"

definition isdigit :: "char \<Rightarrow> bool" where
  "isdigit c = (48 \<le> (of_char c :: nat) \<and> (of_char c :: nat) \<le> 57)"

fun digits_value :: "int \<Rightarrow> string \<Rightarrow> int" where
  "digits_value acc [] = acc"
| "digits_value acc (c # s) =
     (if isdigit c then digits_value (10 * acc + (int (of_char c) - 48)) s else acc)"

definition atoi :: "string \<Rightarrow> int" where
  "atoi s =
     (let s1 = dropWhile isspace s;
          v = (case s1 of
                 c # r \<Rightarrow>
                   if c = CHR ''-'' then - digits_value 0 r
                   else if c = CHR ''+'' then digits_value 0 r
                   else digits_value 0 s1
               | [] \<Rightarrow> 0)
      in max (- 2147483648) (min 2147483647 v))"

text \<open>
  \<open>wait_for_len_or_error\<close>. \<open>strncmp (buf, "LEN:", 4) == 0\<close> is \<open>take 4 (cstr line) = ''LEN:''\<close>
  and \<open>buf + 4\<close> is \<open>drop 4 (cstr line)\<close>. The ESC key is polled at the end of every
  iteration, whether a byte was read or not. The body of the loop is a definition of its
  own: after the test of the deadline, one iteration either returns (\<open>Inl\<close>) or leaves
  the line buffer and the world to the next iteration (\<open>Inr\<close>).
\<close>

definition wait_for_len_or_error_body ::
  "string \<Rightarrow> 32 word \<Rightarrow> world \<Rightarrow> (int \<times> world) + (string \<times> world)" where
  "wait_for_len_or_error_body line start w =
     (case get_time_ms w of (t, w1) \<Rightarrow>
        if \<not> t - start < 60000 then
          Inl (- 1, scroll_add_line ''[Timeout waiting for response]'' w1)
        else
          (case uart_has_data w1 of (d, w2) \<Rightarrow>
            (case (if d then
                     (case uart_read_char w2 of (c, w3) \<Rightarrow>
                        if c = LF then
                          (if take 4 (cstr line) = ''LEN:'' then
                             (Some (atoi (drop 4 (cstr line))), line, w3)
                           else if take 4 (cstr line) = ''ERR:'' then
                             (Some (- 1), line,
                              scroll_add_line '']'' (scroll_add_text ''['' (cstr line) w3))
                           else (None, [], w3))
                        else if length line < 31 then (None, line @ [c], w3)
                        else (None, line, w3))
                   else (None, line, w2)) of
               (Some r, line1, w4) \<Rightarrow> Inl (r, w4)
             | (None, line1, w4) \<Rightarrow>
                 (case isKeyPressed_ESC w4 of (k, w5) \<Rightarrow>
                    if k then Inl (- 1, scroll_add_line ''[Cancelled]'' w5)
                    else Inr (line1, w5)))))"

fun wait_for_len_or_error_loop ::
  "nat \<Rightarrow> string \<Rightarrow> 32 word \<Rightarrow> world \<Rightarrow> (int \<times> world) option" where
  "wait_for_len_or_error_loop 0 line start w = None"
| "wait_for_len_or_error_loop (Suc n) line start w =
     (case wait_for_len_or_error_body line start w of
        Inl r \<Rightarrow> Some r
      | Inr (line1, w1) \<Rightarrow> wait_for_len_or_error_loop n line1 start w1)"

definition wait_for_len_or_error :: "nat \<Rightarrow> world \<Rightarrow> (int \<times> world) option" where
  "wait_for_len_or_error n w =
     (case get_time_ms w of (start, w1) \<Rightarrow> wait_for_len_or_error_loop n [] start w1)"

subsection \<open>Response body\<close>

text \<open>
  The response buffer is the caller's array; a store outside it is undefined behaviour
  in C and the fault \<open>Out_of_bounds\<close> in the model.
\<close>

datatype fault = Out_of_bounds

definition store :: "string \<Rightarrow> int \<Rightarrow> char \<Rightarrow> fault + string" where
  "store buf i c =
     (if 0 \<le> i \<and> i < int (length buf) then Inr (buf[nat i := c]) else Inl Out_of_bounds)"

text \<open>
  The inner loop of \<open>receive_response\<close> reads one chunk. It ends when its condition
  fails (\<open>Chunk_end\<close>: the chunk is full or the deadline has passed), by \<open>goto done\<close>
  (\<open>Early_eot\<close>) or by \<open>return false\<close> (\<open>Cancelled\<close>).
\<close>

datatype chunk_exit = Chunk_end | Early_eot | Cancelled

fun read_chunk ::
  "nat \<Rightarrow> int \<Rightarrow> int \<Rightarrow> int \<Rightarrow> 32 word \<Rightarrow> string \<Rightarrow> world \<Rightarrow>
   (fault + chunk_exit \<times> int \<times> 32 word \<times> string \<times> world) option" where
  "read_chunk 0 received chunk_target chunk_got start buf w = None"
| "read_chunk (Suc n) received chunk_target chunk_got start buf w =
     (if \<not> chunk_got < chunk_target then Some (Inr (Chunk_end, chunk_got, start, buf, w))
      else
        (case get_time_ms w of (t, w1) \<Rightarrow>
           if \<not> t - start < 120000 then Some (Inr (Chunk_end, chunk_got, start, buf, w1))
           else
             (case uart_has_data w1 of (d, w2) \<Rightarrow>
                if d then
                  (case uart_read_char w2 of (c, w3) \<Rightarrow>
                     if c = EOT_CHAR then Some (Inr (Early_eot, chunk_got, start, buf, w3))
                     else
                       (case store buf (received + chunk_got) c of
                          Inl f \<Rightarrow> Some (Inl f)
                        | Inr buf1 \<Rightarrow>
                            (case get_time_ms w3 of (t1, w4) \<Rightarrow>
                               read_chunk n received chunk_target (chunk_got + 1) t1 buf1 w4)))
                else
                  (case isKeyPressed_ESC w2 of (k, w3) \<Rightarrow>
                     if k then
                       (case store buf received NUL of
                          Inl f \<Rightarrow> Some (Inl f)
                        | Inr buf1 \<Rightarrow>
                            Some (Inr (Cancelled, chunk_got, start, buf1,
                                       redraw (scroll_add_line ''[Cancelled]'' w3))))
                     else read_chunk n received chunk_target chunk_got start buf w3))))"

text \<open>
  The outer loop. The flag of the result is \<open>True\<close> when control reaches the label
  \<open>done\<close> and \<open>False\<close> when the function has returned \<open>false\<close>.
\<close>

fun receive_chunks ::
  "nat \<Rightarrow> int \<Rightarrow> int \<Rightarrow> 32 word \<Rightarrow> string \<Rightarrow> world \<Rightarrow>
   (fault + bool \<times> int \<times> string \<times> world) option" where
  "receive_chunks 0 expected_len received start buf w = None"
| "receive_chunks (Suc n) expected_len received start buf w =
     (if \<not> received < expected_len then Some (Inr (True, received, buf, w))
      else
        (case read_chunk n received
                (if expected_len - received > 64 then 64 else expected_len - received)
                0 start buf w of
           None \<Rightarrow> None
         | Some (Inl f) \<Rightarrow> Some (Inl f)
         | Some (Inr (Early_eot, chunk_got, start1, buf1, w1)) \<Rightarrow>
             Some (Inr (True, received, buf1, w1))
         | Some (Inr (Cancelled, chunk_got, start1, buf1, w1)) \<Rightarrow>
             Some (Inr (False, received, buf1, w1))
         | Some (Inr (Chunk_end, chunk_got, start1, buf1, w1)) \<Rightarrow>
             receive_chunks n expected_len (received + chunk_got) start1 buf1
               (uart_write_char (CHR ''A'') w1)))"

fun wait_eot :: "nat \<Rightarrow> 32 word \<Rightarrow> world \<Rightarrow> world option" where
  "wait_eot 0 start w = None"
| "wait_eot (Suc n) start w =
     (case get_time_ms w of (t, w1) \<Rightarrow>
        if \<not> t - start < 2000 then Some w1
        else case uart_has_data w1 of (d, w2) \<Rightarrow>
          if d then
            (case uart_read_char w2 of (c, w3) \<Rightarrow>
               if c = EOT_CHAR then Some w3 else wait_eot n start w3)
          else wait_eot n start w2)"

text \<open>
  \<open>receive_response\<close> returns its \<open>bool\<close>, the response buffer and the world. The
  arithmetic on the scroll offset after the reply has been handed to the console touches
  the scroll buffer only and is not modelled.
\<close>

definition receive_response ::
  "nat \<Rightarrow> string \<Rightarrow> int \<Rightarrow> world \<Rightarrow> (fault + bool \<times> string \<times> world) option" where
  "receive_response n response_buf max_len w =
     (case wait_for_len_or_error n w of
        None \<Rightarrow> None
      | Some (len, w1) \<Rightarrow>
          if len < 0 then Some (Inr (False, response_buf, redraw w1))
          else if len = 0 then
            (case store response_buf 0 NUL of
               Inl f \<Rightarrow> Some (Inl f)
             | Inr buf1 \<Rightarrow>
                 Some (Inr (True, buf1, redraw (scroll_add_line ''AI: (empty response)'' w1))))
          else
            (case get_time_ms (uart_write_char (CHR ''A'') w1) of (start, w2) \<Rightarrow>
              (case receive_chunks n (if len \<ge> max_len then max_len - 1 else len) 0 start
                      response_buf w2 of
                 None \<Rightarrow> None
               | Some (Inl f) \<Rightarrow> Some (Inl f)
               | Some (Inr (False, received, buf1, w3)) \<Rightarrow> Some (Inr (False, buf1, w3))
               | Some (Inr (True, received, buf1, w3)) \<Rightarrow>
                   (case store buf1 received NUL of
                      Inl f \<Rightarrow> Some (Inl f)
                    | Inr buf2 \<Rightarrow>
                        (case get_time_ms w3 of (start1, w4) \<Rightarrow>
                          (case wait_eot n start1 w4 of
                             None \<Rightarrow> None
                           | Some w5 \<Rightarrow>
                               Some (Inr (True, buf2,
                                 redraw (scroll_add_line []
                                   (scroll_add_text ''AI: '' (cstr buf2) w5))))))))))"

subsection \<open>History\<close>

text \<open>
  \<open>ChatTurn\<close> holds its role in place (\<open>char role[8]\<close>) and its content by pointer.
  The heap maps the addresses of the live blocks to their strings. \<open>strdup\<close> takes the
  next address of a counter, so a block never shares its address with an earlier one;
  a failed allocation is not modelled. \<open>free\<close> removes the block.
\<close>

record ChatTurn =
  role :: string
  content :: nat

record ChatHistory =
  turns :: "ChatTurn list"
  count :: int

record memory =
  history :: ChatHistory
  heap :: "nat \<rightharpoonup> string"
  brk :: nat

abbreviation MAX_HISTORY_TURNS :: nat where "MAX_HISTORY_TURNS \<equiv> 20"

definition strdup :: "string \<Rightarrow> memory \<Rightarrow> nat \<times> memory" where
  "strdup s m = (brk m, m\<lparr>heap := (heap m)(brk m \<mapsto> cstr s), brk := Suc (brk m)\<rparr>)"

definition free :: "nat \<Rightarrow> memory \<Rightarrow> memory" where
  "free p m = m\<lparr>heap := (heap m)(p := None)\<rparr>"

text \<open>\<open>memmove (&a[dst], &a[src], k * sizeof (a[0]))\<close> on an array held as a list.\<close>

definition memmove :: "'a list \<Rightarrow> nat \<Rightarrow> nat \<Rightarrow> nat \<Rightarrow> 'a list" where
  "memmove a dst src k = take dst a @ take k (drop src a) @ drop (dst + k) a"

text \<open>
  \<open>history_add\<close>. A store outside \<open>turns\<close> and a role that does not fit \<open>role[8]\<close>
  with its NUL are undefined behaviour in C and \<open>None\<close> here.
\<close>

definition history_add :: "string \<Rightarrow> string \<Rightarrow> memory \<Rightarrow> memory option" where
  "history_add r c m =
     (let m1 =
        (if count (history m) \<ge> int MAX_HISTORY_TURNS then
           (free (content (turns (history m) ! 0)) m)
             \<lparr>history := (history m)
                \<lparr>turns := memmove (turns (history m)) 0 1 (MAX_HISTORY_TURNS - 1),
                 count := count (history m) - 1\<rparr>\<rparr>
         else m);
        i = count (history m1)
      in if 0 \<le> i \<and> i < int (length (turns (history m1))) \<and> length (cstr r) < 8 then
           (case strdup c m1 of (p, m2) \<Rightarrow>
              Some (m2\<lparr>history := (history m2)
                \<lparr>turns := (turns (history m2))[nat i := \<lparr>role = cstr r, content = p\<rparr>],
                 count := i + 1\<rparr>\<rparr>))
         else None)"

text \<open>The state after the \<open>memset\<close> of \<open>main\<close>, with an empty heap.\<close>

definition history_init :: memory where
  "history_init =
     \<lparr>history = \<lparr>turns = replicate MAX_HISTORY_TURNS \<lparr>role = [], content = 0\<rparr>, count = 0\<rparr>,
      heap = Map.empty, brk = 1\<rparr>"

text \<open>A sequence of appends, in order.\<close>

fun history_add_all :: "(string \<times> string) list \<Rightarrow> memory \<Rightarrow> memory option" where
  "history_add_all [] m = Some m"
| "history_add_all ((r, c) # xs) m =
     (case history_add r c m of None \<Rightarrow> None | Some m1 \<Rightarrow> history_add_all xs m1)"

text \<open>What the store holds: role and content of the first \<open>count\<close> turns.\<close>

definition stored_turns :: "memory \<Rightarrow> (string \<times> string option) list" where
  "stored_turns m =
     map (\<lambda>t. (role t, heap m (content t)))
       (take (nat (count (history m))) (turns (history m)))"

subsection \<open>Notions of the specification\<close>

text \<open>
  The acknowledgement-gated body in the words of the specification: the bytes in chunks
  of at most 64, one acknowledgement byte after each chunk.
\<close>

function chunked :: "string \<Rightarrow> event list" where
  "chunked bs =
     (if bs = [] then []
      else map Rx (take 64 bs) @ Tx (CHR ''A'') # chunked (drop 64 bs))"
  by pat_completeness auto
termination
  by (relation "measure length") auto

declare chunked.simps [simp del]

text \<open>
  Conditions on the environment. \<open>never_escaped\<close>: the ESC key stays up.
  \<open>unhurried\<close>: no two readings of the clock are 120 s apart, so that the wait for
  a chunk does not expire. \<open>ticking\<close>: after every reading of the clock a later
  one shows that 15 s have passed.
\<close>

definition never_escaped :: "world \<Rightarrow> bool" where
  "never_escaped w = (True \<notin> set (esc w))"

definition silent :: "world \<Rightarrow> bool" where
  "silent w = (bytes (rxq w) = [])"

definition unhurried :: "world \<Rightarrow> bool" where
  "unhurried w = (\<forall>i j. timer w j * 1000 - timer w i * 1000 < 120000)"

definition ticking :: "world \<Rightarrow> bool" where
  "ticking w = (\<forall>i. \<exists>j>i. \<not> timer w j * 1000 - timer w i * 1000 < 15000)"

subsection \<open>The invariant of the history store\<close>

text \<open>
  After the appends \<open>ys\<close> the store holds the last \<open>min (length ys) 20\<close> of them; the
  \<open>i\<close>-th append (from 0) owns the block at address \<open>Suc i\<close>, and the heap holds the blocks
  of the stored turns and no other.
\<close>

definition turn_of :: "(string \<times> string) list \<Rightarrow> nat \<Rightarrow> ChatTurn" where
  "turn_of ys i = \<lparr>role = cstr (fst (ys ! i)), content = Suc i\<rparr>"

definition hist_inv :: "memory \<Rightarrow> (string \<times> string) list \<Rightarrow> bool" where
  "hist_inv m ys =
     (length (turns (history m)) = MAX_HISTORY_TURNS \<and>
      count (history m) = int (min (length ys) MAX_HISTORY_TURNS) \<and>
      brk m = Suc (length ys) \<and>
      take (min (length ys) MAX_HISTORY_TURNS) (turns (history m)) =
        map (turn_of ys) [length ys - min (length ys) MAX_HISTORY_TURNS ..< length ys] \<and>
      (\<forall>p. heap m p =
         (if length ys - min (length ys) MAX_HISTORY_TURNS < p \<and> p \<le> length ys
          then Some (cstr (snd (ys ! (p - 1)))) else None)))"

section \<open>Proofs\<close>

subsection \<open>Traces and writes\<close>

lemma sent_append [simp]: "sent (a @ b) = sent a @ sent b"
  by (induction a rule: sent.induct) simp_all

lemma chan_append [simp]: "chan (a @ b) = chan a @ chan b"
  by (induction a rule: chan.induct) simp_all

lemma sent_map_Tx [simp]: "sent (map Tx s) = s"
  by (induction s) simp_all

lemma uart_write_str_eq: "uart_write_str s w = w\<lparr>trace := trace w @ map Tx (cstr s)\<rparr>"
  by (induction s arbitrary: w) (simp_all add: cstr_def uart_write_char_def)

lemma escape_char_eq: "c \<noteq> NUL \<Longrightarrow> escape_char c w = w\<lparr>trace := trace w @ map Tx (escape_form c)\<rparr>"
  by (simp add: escape_char_def escape_form_def printable_def uart_write_str_eq cstr_def uart_write_char_def)

lemma json_escape_to_uart_eq:
  "json_escape_to_uart s w = w\<lparr>trace := trace w @ map Tx (concat (map escape_form (cstr s)))\<rparr>"
  by (induction s arbitrary: w) (simp_all add: cstr_def escape_char_eq)

subsection \<open>C6: the escaping table\<close>

text \<open>
  C6. For every input string, \<open>json_escape_to_uart\<close> writes, for each byte of the string
  in order, its form in the table: quote, backslash, newline, carriage return and tab
  become their two-character escapes, every other printable ASCII byte is written
  unchanged and every other byte is dropped. Nothing else of the world changes.
\<close>

theorem json_escape_table:
  "json_escape_to_uart s w = w\<lparr>trace := trace w @ map Tx (concat (map escape_form (cstr s)))\<rparr>
   \<and> sent (trace (json_escape_to_uart s w)) = sent (trace w) @ concat (map escape_form (cstr s))"
  by (simp add: json_escape_to_uart_eq)

theorem json_escape_table_witness:
  "sent (trace (json_escape_to_uart
       (''a'' @ [QUOTE, CHR 0x07, LF, CHR 0xC3, BACKSLASH, CHR 0x7F] @ ''b~ '' @ [TAB, CR])
       \<lparr>timer = (\<lambda>n. 0), reads = 0, rxq = [], esc = [], trace = []\<rparr>))
   = ''a'' @ [BACKSLASH, QUOTE, BACKSLASH, CHR ''n'', BACKSLASH, BACKSLASH] @ ''b~ ''
       @ [BACKSLASH, CHR ''t'', BACKSLASH, CHR ''r'']"
  using json_escape_table
    [of "''a'' @ [QUOTE, CHR 0x07, LF, CHR 0xC3, BACKSLASH, CHR 0x7F] @ ''b~ '' @ [TAB, CR]"
        "\<lparr>timer = (\<lambda>n. 0), reads = 0, rxq = [], esc = [], trace = []\<rparr>"]
  by (simp add: cstr_def escape_form_def printable_def)

subsection \<open>C5: FIFO eviction of the history store\<close>

lemma hist_inv_init: "hist_inv history_init []"
  by (auto simp: hist_inv_def history_init_def)

lemma turn_of_snoc: "i < length ys \<Longrightarrow> turn_of (ys @ [x]) i = turn_of ys i"
  by (simp add: turn_of_def nth_append)

lemma map_turn_of_snoc:
  "b \<le> length ys \<Longrightarrow> map (turn_of (ys @ [x])) [a ..< b] = map (turn_of ys) [a ..< b]"
  by (simp add: turn_of_snoc)

lemma take_Suc_update: "k < length xs \<Longrightarrow> take (Suc k) (xs[k := v]) = take k xs @ [v]"
  by (simp add: take_Suc_conv_app_nth)

lemma history_add_below:
  assumes inv: "hist_inv m ys" and k: "length ys < 20" and r: "length (cstr r) < 8"
  shows "\<exists>m'. history_add r c m = Some m' \<and> hist_inv m' (ys @ [(r, c)])"
proof -
  let ?k = "length ys"
  from inv k have len: "length (turns (history m)) = 20" and cnt: "count (history m) = int ?k"
    and brk: "brk m = Suc ?k"
    and tk: "take ?k (turns (history m)) = map (turn_of ys) [0 ..< ?k]"
    and hp: "\<And>p. heap m p = (if 0 < p \<and> p \<le> ?k then Some (cstr (snd (ys ! (p - 1)))) else None)"
    by (simp_all add: hist_inv_def min_def)
  let ?new = "\<lparr>role = cstr r, content = Suc ?k\<rparr>"
  let ?m' = "m\<lparr>heap := (heap m)(Suc ?k \<mapsto> cstr c), brk := Suc (Suc ?k),
               history := \<lparr>turns = (turns (history m))[?k := ?new], count = int ?k + 1\<rparr>\<rparr>"
  have eq: "history_add r c m = Some ?m'"
    using k r len cnt brk by (simp add: history_add_def strdup_def Let_def)
  have new: "?new = turn_of (ys @ [(r, c)]) ?k"
    by (simp add: turn_of_def)
  have t': "take (Suc ?k) ((turns (history m))[?k := ?new]) = map (turn_of (ys @ [(r, c)])) [0 ..< Suc ?k]"
    using k len tk by (simp add: take_Suc_update new map_turn_of_snoc del: upt_Suc) (simp add: turn_of_snoc)
  have "hist_inv ?m' (ys @ [(r, c)])"
    unfolding hist_inv_def using k len t' hp
    by (auto simp: min_def nth_append)
  with eq show ?thesis by blast
qed

lemma memmove_shift:
  assumes "length a = Suc n"
  shows "memmove a 0 1 n = tl a @ [last a]"
proof (cases a rule: rev_cases)
  case Nil
  with assms show ?thesis by simp
next
  case (snoc ys y)
  with assms show ?thesis by (cases ys) (auto simp: memmove_def)
qed

lemma history_add_full:
  assumes inv: "hist_inv m ys" and k: "20 \<le> length ys" and r: "length (cstr r) < 8"
  shows "\<exists>m'. history_add r c m = Some m' \<and> hist_inv m' (ys @ [(r, c)])"
proof -
  let ?k = "length ys"
  let ?ts = "turns (history m)"
  from inv k have len: "length ?ts = 20" and cnt: "count (history m) = 20"
    and brk: "brk m = Suc ?k"
    and tk: "?ts = map (turn_of ys) [?k - 20 ..< ?k]"
    and hp: "\<And>p. heap m p = (if ?k - 20 < p \<and> p \<le> ?k then Some (cstr (snd (ys ! (p - 1)))) else None)"
    by (auto simp: hist_inv_def min_absorb2)
  have hd: "content (?ts ! 0) = Suc (?k - 20)"
    using k by (subst tk) (simp add: turn_of_def)
  have shifted: "take 19 (memmove ?ts 0 1 19) = map (turn_of ys) [?k - 19 ..< ?k]"
  proof -
    have "take 19 (memmove ?ts 0 1 19) = tl ?ts"
      using len memmove_shift[of ?ts 19] by simp
    also have "\<dots> = map (turn_of ys) [Suc (?k - 20) ..< ?k]"
      by (subst tk) (simp add: map_tl[symmetric])
    also have "Suc (?k - 20) = ?k - 19"
      using k by simp
    finally show ?thesis .
  qed
  let ?new = "\<lparr>role = cstr r, content = Suc ?k\<rparr>"
  let ?ts1 = "memmove ?ts 0 1 19"
  let ?m' = "m\<lparr>heap := (heap m)(Suc (?k - 20) := None, Suc ?k \<mapsto> cstr c), brk := Suc (Suc ?k),
               history := \<lparr>turns = ?ts1[19 := ?new], count = 20\<rparr>\<rparr>"
  have len1: "length ?ts1 = 20" using len by (simp add: memmove_def)
  have eq: "history_add r c m = Some ?m'"
    using r len len1 cnt brk hd by (simp add: history_add_def strdup_def free_def Let_def)
  have new: "?new = turn_of (ys @ [(r, c)]) ?k"
    by (simp add: turn_of_def)
  have "?ts1[19 := ?new] = take 20 (?ts1[19 := ?new])" using len1 by simp
  also have "\<dots> = take 19 ?ts1 @ [?new]"
    using len1 take_Suc_update[of 19 ?ts1 ?new] by (simp add: eval_nat_numeral)
  also have "\<dots> = map (turn_of ys) [?k - 19 ..< ?k] @ [turn_of (ys @ [(r, c)]) ?k]"
    by (simp only: shifted new)
  also have "\<dots> = map (turn_of (ys @ [(r, c)])) [Suc ?k - 20 ..< Suc ?k]"
    using k by (simp add: Suc_diff_le turn_of_snoc)
  finally have t': "?ts1[19 := ?new] = map (turn_of (ys @ [(r, c)])) [Suc ?k - 20 ..< Suc ?k]" .
  have "hist_inv ?m' (ys @ [(r, c)])"
    unfolding hist_inv_def using k len1 t' hp
    by (auto simp: min_def nth_append)
  with eq show ?thesis by blast
qed

lemma history_add_inv:
  assumes "hist_inv m ys" "length (cstr r) < 8"
  shows "\<exists>m'. history_add r c m = Some m' \<and> hist_inv m' (ys @ [(r, c)])"
  using assms history_add_below history_add_full by (cases "length ys < 20") auto

lemma history_add_all_inv:
  assumes "hist_inv m ys" "\<forall>x\<in>set xs. length (cstr (fst x)) < 8"
  shows "\<exists>m'. history_add_all xs m = Some m' \<and> hist_inv m' (ys @ xs)"
  using assms
proof (induction xs arbitrary: m ys)
  case Nil
  then show ?case by simp
next
  case (Cons x xs)
  obtain r c where x: "x = (r, c)" by (cases x)
  with Cons.prems obtain m1 where m1: "history_add r c m = Some m1" "hist_inv m1 (ys @ [(r, c)])"
    using history_add_inv by fastforce
  from Cons.IH[OF m1(2)] Cons.prems(2) obtain m' where
    "history_add_all xs m1 = Some m'" "hist_inv m' ((ys @ [(r, c)]) @ xs)" by auto
  with m1 x show ?case by simp
qed

lemma hist_inv_stored:
  assumes "hist_inv m ys"
  shows "stored_turns m =
           map (\<lambda>x. (cstr (fst x), Some (cstr (snd x)))) (drop (length ys - MAX_HISTORY_TURNS) ys)"
proof -
  let ?k = "length ys" and ?c = "min (length ys) MAX_HISTORY_TURNS"
  have d: "?k - ?c = ?k - 20" by simp
  from assms have "stored_turns m =
      map (\<lambda>t. (role t, heap m (content t))) (map (turn_of ys) [?k - ?c ..< ?k])"
    by (simp add: stored_turns_def hist_inv_def)
  also have "\<dots> = map (\<lambda>i. (cstr (fst (ys ! i)), Some (cstr (snd (ys ! i))))) [?k - ?c ..< ?k]"
    using assms by (auto simp: hist_inv_def turn_of_def)
  also have "\<dots> = map (\<lambda>x. (cstr (fst x), Some (cstr (snd x)))) (map ((!) ys) [?k - 20 ..< ?k])"
    by (simp only: d map_map comp_def)
  also have "map ((!) ys) [?k - 20 ..< ?k] = drop (?k - 20) ys"
    by (rule map_upt_eqI) simp_all
  finally show ?thesis .
qed

lemma hist_inv_pointers:
  assumes "hist_inv m ys" "MAX_HISTORY_TURNS \<le> length ys"
  shows "dom (heap m) = content ` set (turns (history m))"
    and "distinct (map content (turns (history m)))"
    and "content (turns (history m) ! 0) = Suc (length ys - MAX_HISTORY_TURNS)"
proof -
  let ?k = "length ys"
  from assms have tk: "turns (history m) = map (turn_of ys) [?k - 20 ..< ?k]"
    and hp: "\<And>p. heap m p = (if ?k - 20 < p \<and> p \<le> ?k then Some (cstr (snd (ys ! (p - 1)))) else None)"
    by (auto simp: hist_inv_def min_absorb2)
  have c: "map content (turns (history m)) = map Suc [?k - 20 ..< ?k]"
    by (simp add: tk turn_of_def comp_def)
  show "distinct (map content (turns (history m)))"
    by (simp add: c distinct_map)
  have "content ` set (turns (history m)) = set (map content (turns (history m)))" by simp
  also have "\<dots> = {p. ?k - 20 < p \<and> p \<le> ?k}"
    by (subst c) (auto simp: image_iff Bex_def intro: Suc_lessI)
  finally show "dom (heap m) = content ` set (turns (history m))"
    by (auto simp: dom_def hp)
  show "content (turns (history m) ! 0) = Suc (?k - 20)"
    using assms(2) by (simp add: tk turn_of_def)
qed

lemma history_add_all_take:
  assumes "\<forall>x\<in>set xs. length (cstr (fst x)) < 8"
  shows "\<exists>m. history_add_all (take i xs) history_init = Some m \<and> hist_inv m (take i xs)"
proof -
  have "\<forall>x\<in>set (take i xs). length (cstr (fst x)) < 8"
    using assms by (meson in_set_takeD)
  from history_add_all_inv[OF hist_inv_init this] show ?thesis by simp
qed

lemma role_fits: "r \<in> {''user'', ''model''} \<Longrightarrow> cstr r = r \<and> length (cstr r) < 8"
  by (auto simp: cstr_def)

text \<open>
  C5. After more than 20 appends to the empty store, each with the role \<open>user\<close> or
  \<open>model\<close>, every append has succeeded, \<open>count\<close> is 20 and the stored turns are the
  last 20 appended, in order; the heap holds the blocks of these 20 turns and no other,
  each owned by one turn. Every append made at capacity frees the block of the head turn,
  which held the content appended 20 appends before, and leaves the former turns 1 to 19
  followed by the new turn.
\<close>

theorem history_fifo_eviction:
  assumes k: "MAX_HISTORY_TURNS < length xs"
    and roles: "\<forall>x\<in>set xs. fst x \<in> {''user'', ''model''}"
  shows "(\<exists>m. history_add_all xs history_init = Some m \<and>
            count (history m) = int MAX_HISTORY_TURNS \<and>
            stored_turns m =
              map (\<lambda>x. (fst x, Some (cstr (snd x)))) (drop (length xs - MAX_HISTORY_TURNS) xs) \<and>
            dom (heap m) = content ` set (turns (history m)) \<and>
            distinct (map content (turns (history m)))) \<and>
         (\<forall>i. MAX_HISTORY_TURNS \<le> i \<and> i < length xs \<longrightarrow>
            (\<exists>m m'. history_add_all (take i xs) history_init = Some m \<and>
               history_add (fst (xs ! i)) (snd (xs ! i)) m = Some m' \<and>
               heap m (content (turns (history m) ! 0)) =
                 Some (cstr (snd (xs ! (i - MAX_HISTORY_TURNS)))) \<and>
               heap m' (content (turns (history m) ! 0)) = None \<and>
               stored_turns m' =
                 tl (stored_turns m) @ [(fst (xs ! i), Some (cstr (snd (xs ! i))))]))"
proof (intro conjI allI impI)
  have fits: "\<forall>x\<in>set xs. length (cstr (fst x)) < 8"
    using roles role_fits by blast
  have same: "map (\<lambda>x. (cstr (fst x), Some (cstr (snd x)))) ys =
              map (\<lambda>x. (fst x, Some (cstr (snd x)))) ys" if "set ys \<subseteq> set xs" for ys
    using that roles role_fits by (intro map_cong) auto
  from history_add_all_inv[OF hist_inv_init fits] obtain m where
    m: "history_add_all xs history_init = Some m" "hist_inv m xs" by auto
  have "count (history m) = int MAX_HISTORY_TURNS"
    using m(2) k by (simp add: hist_inv_def)
  moreover have "stored_turns m =
      map (\<lambda>x. (fst x, Some (cstr (snd x)))) (drop (length xs - MAX_HISTORY_TURNS) xs)"
    using hist_inv_stored[OF m(2)] same[of "drop (length xs - MAX_HISTORY_TURNS) xs"]
    by (simp add: set_drop_subset)
  moreover note hist_inv_pointers(1,2)[OF m(2)] m(1)
  ultimately show "\<exists>m. history_add_all xs history_init = Some m \<and>
            count (history m) = int MAX_HISTORY_TURNS \<and>
            stored_turns m =
              map (\<lambda>x. (fst x, Some (cstr (snd x)))) (drop (length xs - MAX_HISTORY_TURNS) xs) \<and>
            dom (heap m) = content ` set (turns (history m)) \<and>
            distinct (map content (turns (history m)))"
    using k by auto
next
  fix i assume i: "MAX_HISTORY_TURNS \<le> i \<and> i < length xs"
  let ?ys = "take i xs" and ?r = "fst (xs ! i)" and ?c = "snd (xs ! i)"
  have fits: "\<forall>x\<in>set xs. length (cstr (fst x)) < 8"
    using roles role_fits by blast
  have len: "length ?ys = i" using i by simp
  from history_add_all_take[OF fits, of i] obtain m where
    m: "history_add_all ?ys history_init = Some m" "hist_inv m ?ys" by auto
  have r: "cstr ?r = ?r" "length (cstr ?r) < 8"
    using roles role_fits i by (metis nth_mem)+
  from history_add_inv[OF m(2) r(2), of ?c] obtain m' where
    m': "history_add ?r ?c m = Some m'" "hist_inv m' (?ys @ [(?r, ?c)])" by auto
  have p: "content (turns (history m) ! 0) = Suc (i - 20)"
    using hist_inv_pointers(3)[OF m(2)] i len by simp
  have h: "heap m (Suc (i - 20)) = Some (cstr (snd (xs ! (i - 20))))"
    using m(2) i len by (auto simp: hist_inv_def min_absorb2)
  have h': "heap m' (Suc (i - 20)) = None"
    using m'(2) i len by (auto simp: hist_inv_def min_absorb2)
  have s: "stored_turns m = map (\<lambda>x. (cstr (fst x), Some (cstr (snd x)))) (drop (i - 20) ?ys)"
    using hist_inv_stored[OF m(2)] len by simp
  have s': "stored_turns m' =
      map (\<lambda>x. (cstr (fst x), Some (cstr (snd x)))) (drop (Suc i - 20) (?ys @ [(?r, ?c)]))"
    using hist_inv_stored[OF m'(2)] len by simp
  have e: "Suc i - 20 = Suc (i - 20)" using i by arith
  have "drop (Suc (i - 20)) (?ys @ [(?r, ?c)]) = drop (Suc (i - 20)) ?ys @ [(?r, ?c)]"
    using i len by simp
  also have "drop (Suc (i - 20)) ?ys = tl (drop (i - 20) ?ys)"
    by (simp only: drop_Suc tl_drop)
  finally have "drop (Suc i - 20) (?ys @ [(?r, ?c)]) = tl (drop (i - 20) ?ys) @ [(?r, ?c)]"
    by (simp only: e)
  then have "stored_turns m' = tl (stored_turns m) @ [(cstr ?r, Some (cstr ?c))]"
    by (simp only: s s' map_append map_tl list.map fst_conv snd_conv)
  with r(1) have "stored_turns m' = tl (stored_turns m) @ [(?r, Some (cstr ?c))]"
    by simp
  with m(1) m'(1) p h h'
  show "\<exists>m m'. history_add_all (take i xs) history_init = Some m \<and>
               history_add (fst (xs ! i)) (snd (xs ! i)) m = Some m' \<and>
               heap m (content (turns (history m) ! 0)) =
                 Some (cstr (snd (xs ! (i - MAX_HISTORY_TURNS)))) \<and>
               heap m' (content (turns (history m) ! 0)) = None \<and>
               stored_turns m' =
                 tl (stored_turns m) @ [(fst (xs ! i), Some (cstr (snd (xs ! i))))]"
    by auto
qed

theorem history_fifo_eviction_witness:
  "\<exists>m. history_add_all ((''user'', ''first'') # replicate 20 (''model'', ''later'')) history_init
         = Some m \<and>
       count (history m) = 20 \<and>
       stored_turns m = replicate 20 (''model'', Some ''later'')"
proof -
  let ?xs = "(''user'', ''first'') # replicate 20 (''model'', ''later'')"
  have "MAX_HISTORY_TURNS < length ?xs" by simp
  moreover have "\<forall>x\<in>set ?xs. fst x \<in> {''user'', ''model''}" by simp
  ultimately have "\<exists>m. history_add_all ?xs history_init = Some m \<and>
            count (history m) = int MAX_HISTORY_TURNS \<and>
            stored_turns m =
              map (\<lambda>x. (fst x, Some (cstr (snd x)))) (drop (length ?xs - MAX_HISTORY_TURNS) ?xs) \<and>
            dom (heap m) = content ` set (turns (history m)) \<and>
            distinct (map content (turns (history m)))"
    using history_fifo_eviction[of ?xs] by blast
  then show ?thesis by (auto simp: cstr_def)
qed

end
